theory Spec2Isabelle
  imports Complex_Main
begin

section \<open>Values of the host language\<close>

text \<open>
  The library of \<^verbatim>\<open>src/library/index.ts\<close> receives values of type \<^verbatim>\<open>unknown\<close>, so
  the model starts with the values of JavaScript as the library observes them.

  A number is an IEEE double. The library only compares numbers and tests them for
  equality, and both are exact on doubles, so a finite number is carried by its exact
  rational value. The two zeros are one value here: \<^verbatim>\<open>===\<close>, \<^verbatim>\<open>includes\<close>, \<^verbatim>\<open>>=\<close>,
  \<^verbatim>\<open><=\<close> and the conversion to a string do not tell them apart.
\<close>

datatype jsnum = NumNaN | NumPosInf | NumNegInf | NumFinite rat

text \<open>
  A string is the list of its UTF-16 code units, here the code units below 256 (every
  string of the source is one of these); its \<^verbatim>\<open>length\<close> is the length of the list. A
  BigInt is an integer. A symbol and an object are known by their identity (a number):
  two objects with the same contents are different values when their addresses differ.
\<close>

datatype val =
    VUndefined
  | VNull
  | VBool bool
  | VNum jsnum
  | VStr string
  | VSym nat
  | VBigInt int
  | VRef nat

text \<open>What a call can throw: the engine's TypeError, the \<^verbatim>\<open>Error\<close> of \<^verbatim>\<open>parse\<close> with
  its message, or any value thrown by code attached to an object.\<close>

datatype exn = TypeError | Error string | Thrown val

datatype objclass = PlainObject | ArrayObject | FunctionObject

text \<open>
  An object on the heap, as far as the library looks at it:
  \<^item> \<open>cls\<close>: whether it is callable (\<^verbatim>\<open>typeof\<close> gives \<^verbatim>\<open>"function"\<close>) or an Array
    (\<^verbatim>\<open>Array.isArray\<close>);
  \<^item> \<open>own\<close>: its own data properties, and \<open>inherited\<close>: the data properties of its
    prototype chain, nearest prototype first. A property read looks in \<open>own\<close> and then
    in \<open>inherited\<close>; a key found in neither reads as \<^verbatim>\<open>undefined\<close>. An Array has its
    \<^verbatim>\<open>length\<close> and its elements, under their decimal indices, among its own
    properties. Accessor properties and proxies, which run code on a read, are outside
    the model;
  \<^item> the outcome of converting it to a primitive with hint number (what \<^verbatim>\<open>>=\<close> does
    first) and with hint string (what a template literal does first), and the outcome
    of calling its \<^verbatim>\<open>toString\<close> method. These run methods of the object, so the
    model records their outcome: a value, or an exception (a TypeError when there is no
    such method). The outcome is the same at every call: the methods have no effect on
    the heap.
\<close>

record jsobj =
  cls :: objclass
  own :: "(string \<times> val) list"
  inherited :: "(string \<times> val) list"
  to_primitive_number :: "exn + val"
  to_primitive_string :: "exn + val"
  toString_result :: "exn + val"

text \<open>The properties a read finds on an object, the first binding of a key being the
  one that counts.\<close>

definition props :: "jsobj \<Rightarrow> (string \<times> val) list" where
  "props obj = own obj @ inherited obj"

text \<open>
  The environment a validator runs in: the heap, and the parts of the engine that the
  library calls but that have nothing to do with it, namely \<^verbatim>\<open>Number::toString\<close> on a
  finite number, \<^verbatim>\<open>StringToNumber\<close>, and the description of each symbol. The library
  also calls one method of the value under test, \<^verbatim>\<open>value.every(callback)\<close>; for that the
  environment gives the address of the built-in function \<^verbatim>\<open>Array.prototype.every\<close>, and
  \<open>call_function f receiver callback\<close>: what a call of any other function \<open>f\<close> with
  that receiver and that callback as its argument returns or throws (the callback is given
  by what it returns or throws on each value).
\<close>

record env =
  heap :: "nat \<Rightarrow> jsobj"
  finite_to_string :: "rat \<Rightarrow> string"
  string_to_number :: "string \<Rightarrow> jsnum"
  symbol_description :: "nat \<Rightarrow> string"
  array_prototype_every :: nat
  call_function :: "nat \<Rightarrow> val \<Rightarrow> (val \<Rightarrow> exn + bool) \<Rightarrow> exn + val"

subsection \<open>Exceptions and the short-circuit operators\<close>

definition andthen :: "exn + 'a \<Rightarrow> ('a \<Rightarrow> exn + 'b) \<Rightarrow> exn + 'b" where
  "andthen m f = (case m of Inl e \<Rightarrow> Inl e | Inr a \<Rightarrow> f a)"

text \<open>\<^verbatim>\<open>p || q\<close> and \<^verbatim>\<open>p && q\<close> on boolean operands: \<open>q\<close> is not evaluated, so cannot
  throw, when \<open>p\<close> decides.\<close>

definition orelse :: "exn + bool \<Rightarrow> exn + bool \<Rightarrow> exn + bool" where
  "orelse p q = (case p of Inl e \<Rightarrow> Inl e | Inr b \<Rightarrow> if b then Inr True else q)"

definition andalso :: "exn + bool \<Rightarrow> exn + bool \<Rightarrow> exn + bool" where
  "andalso p q = (case p of Inl e \<Rightarrow> Inl e | Inr b \<Rightarrow> if b then q else Inr False)"

subsection \<open>typeof, equality, property reads\<close>

definition js_typeof :: "env \<Rightarrow> val \<Rightarrow> string" where
  "js_typeof \<sigma> v =
     (case v of
        VUndefined \<Rightarrow> ''undefined''
      | VNull \<Rightarrow> ''object''
      | VBool _ \<Rightarrow> ''boolean''
      | VNum _ \<Rightarrow> ''number''
      | VStr _ \<Rightarrow> ''string''
      | VSym _ \<Rightarrow> ''symbol''
      | VBigInt _ \<Rightarrow> ''bigint''
      | VRef a \<Rightarrow> (if cls (heap \<sigma> a) = FunctionObject then ''function'' else ''object''))"

text \<open>\<^verbatim>\<open>x === y\<close>: NaN is not equal to itself; objects and symbols are equal when they
  are the same object or symbol.\<close>

fun strict_eq :: "val \<Rightarrow> val \<Rightarrow> bool" where
  "strict_eq (VNum a) (VNum b) = (a \<noteq> NumNaN \<and> b \<noteq> NumNaN \<and> a = b)"
| "strict_eq x y = (x = y)"

text \<open>SameValueZero, the comparison of \<^verbatim>\<open>Array.prototype.includes\<close>: as \<^verbatim>\<open>===\<close>, but
  NaN is the same as NaN.\<close>

fun same_value_zero :: "val \<Rightarrow> val \<Rightarrow> bool" where
  "same_value_zero (VNum a) (VNum b) = (a = b)"
| "same_value_zero x y = (x = y)"

text \<open>\<^verbatim>\<open>values.includes(value)\<close> on the array of a rest parameter.\<close>

fun js_includes :: "val list \<Rightarrow> val \<Rightarrow> bool" where
  "js_includes [] x = False"
| "js_includes (v # vs) x = (if same_value_zero v x then True else js_includes vs x)"

text \<open>\<^verbatim>\<open>o[key]\<close> on the object at address \<open>a\<close>.\<close>

definition obj_get :: "env \<Rightarrow> nat \<Rightarrow> string \<Rightarrow> val" where
  "obj_get \<sigma> a key = (case map_of (props (heap \<sigma> a)) key of None \<Rightarrow> VUndefined | Some v \<Rightarrow> v)"

text \<open>
  \<^verbatim>\<open>value.length\<close> on any value: a TypeError on \<^verbatim>\<open>null\<close> and \<^verbatim>\<open>undefined\<close>, the
  number of code units of a string, the property of an object, and \<^verbatim>\<open>undefined\<close> on a
  boolean, number, symbol or bigint (their prototypes define no \<^verbatim>\<open>length\<close>).
\<close>

definition get_length :: "env \<Rightarrow> val \<Rightarrow> exn + val" where
  "get_length \<sigma> v =
     (case v of
        VUndefined \<Rightarrow> Inl TypeError
      | VNull \<Rightarrow> Inl TypeError
      | VStr s \<Rightarrow> Inr (VNum (NumFinite (of_nat (length s))))
      | VRef a \<Rightarrow> Inr (obj_get \<sigma> a ''length'')
      | _ \<Rightarrow> Inr VUndefined)"

subsection \<open>Relational comparison against a number\<close>

text \<open>\<open>num_lt x y\<close> is \<^verbatim>\<open>Number::lessThan\<close>: \<open>None\<close> is the result \<^verbatim>\<open>undefined\<close> of a
  comparison with NaN.\<close>

fun num_lt :: "jsnum \<Rightarrow> jsnum \<Rightarrow> bool option" where
  "num_lt NumNaN _ = None"
| "num_lt _ NumNaN = None"
| "num_lt (NumFinite p) (NumFinite q) = Some (p < q)"
| "num_lt NumNegInf NumNegInf = Some False"
| "num_lt NumNegInf _ = Some True"
| "num_lt _ NumNegInf = Some False"
| "num_lt NumPosInf _ = Some False"
| "num_lt _ NumPosInf = Some True"

text \<open>\<^verbatim>\<open>ToPrimitive(value, number)\<close>: a primitive is itself; an object gives the outcome
  of its conversion, which must be a primitive.\<close>

definition to_primitive :: "env \<Rightarrow> val \<Rightarrow> exn + val" where
  "to_primitive \<sigma> v =
     (case v of
        VRef a \<Rightarrow> (case to_primitive_number (heap \<sigma> a) of
                     Inl e \<Rightarrow> Inl e
                   | Inr (VRef _) \<Rightarrow> Inl TypeError
                   | Inr p \<Rightarrow> Inr p)
      | _ \<Rightarrow> Inr v)"

text \<open>
  The number a primitive stands for when \<^verbatim>\<open>IsLessThan\<close> compares it with a Number:
  \<^verbatim>\<open>ToNumeric\<close> of it, where a BigInt keeps its exact value (the comparison of a
  BigInt with a Number is the comparison of their mathematical values) and a symbol
  is a TypeError.
\<close>

definition to_numeric :: "env \<Rightarrow> val \<Rightarrow> exn + jsnum" where
  "to_numeric \<sigma> p =
     (case p of
        VUndefined \<Rightarrow> Inr NumNaN
      | VNull \<Rightarrow> Inr (NumFinite 0)
      | VBool b \<Rightarrow> Inr (NumFinite (if b then 1 else 0))
      | VNum n \<Rightarrow> Inr n
      | VStr s \<Rightarrow> Inr (string_to_number \<sigma> s)
      | VSym _ \<Rightarrow> Inl TypeError
      | VBigInt i \<Rightarrow> Inr (NumFinite (of_int i))
      | VRef _ \<Rightarrow> Inl TypeError)"

text \<open>\<^verbatim>\<open>value >= bound\<close>: false when \<^verbatim>\<open>value < bound\<close> is true or undefined.\<close>

definition js_ge :: "env \<Rightarrow> val \<Rightarrow> jsnum \<Rightarrow> exn + bool" where
  "js_ge \<sigma> v bound =
     andthen (to_primitive \<sigma> v) (\<lambda>p.
     andthen (to_numeric \<sigma> p) (\<lambda>n. Inr (num_lt n bound = Some False)))"

text \<open>\<^verbatim>\<open>value <= bound\<close>: false when \<^verbatim>\<open>bound < value\<close> is true or undefined.\<close>

definition js_le :: "env \<Rightarrow> val \<Rightarrow> jsnum \<Rightarrow> exn + bool" where
  "js_le \<sigma> v bound =
     andthen (to_primitive \<sigma> v) (\<lambda>p.
     andthen (to_numeric \<sigma> p) (\<lambda>n. Inr (num_lt bound n = Some False)))"

subsection \<open>Conversion to a string\<close>

definition digit_char :: "nat \<Rightarrow> char" where
  "digit_char d = ''0123456789'' ! d"

fun nat_to_decimal :: "nat \<Rightarrow> string" where
  "nat_to_decimal n =
     (if n < 10 then [digit_char n] else nat_to_decimal (n div 10) @ [digit_char (n mod 10)])"

declare nat_to_decimal.simps [simp del]

text \<open>\<^verbatim>\<open>BigInt::toString\<close> in radix 10.\<close>

definition bigint_to_string :: "int \<Rightarrow> string" where
  "bigint_to_string i = (if i < 0 then ''-'' @ nat_to_decimal (nat (- i)) else nat_to_decimal (nat i))"

definition number_to_string :: "env \<Rightarrow> jsnum \<Rightarrow> string" where
  "number_to_string \<sigma> n =
     (case n of
        NumNaN \<Rightarrow> ''NaN''
      | NumPosInf \<Rightarrow> ''Infinity''
      | NumNegInf \<Rightarrow> ''-Infinity''
      | NumFinite q \<Rightarrow> finite_to_string \<sigma> q)"

text \<open>\<^verbatim>\<open>ToString\<close> of a primitive: a symbol is a TypeError.\<close>

definition prim_to_string :: "env \<Rightarrow> val \<Rightarrow> exn + string" where
  "prim_to_string \<sigma> p =
     (case p of
        VUndefined \<Rightarrow> Inr ''undefined''
      | VNull \<Rightarrow> Inr ''null''
      | VBool b \<Rightarrow> Inr (if b then ''true'' else ''false'')
      | VNum n \<Rightarrow> Inr (number_to_string \<sigma> n)
      | VStr s \<Rightarrow> Inr s
      | VSym _ \<Rightarrow> Inl TypeError
      | VBigInt i \<Rightarrow> Inr (bigint_to_string i)
      | VRef _ \<Rightarrow> Inl TypeError)"

text \<open>\<^verbatim>\<open>ToString(value)\<close>, what a template literal applies to each substitution
  \<^verbatim>\<open>${value}\<close>: an object is first converted to a primitive with hint string.\<close>

definition to_string :: "env \<Rightarrow> val \<Rightarrow> exn + string" where
  "to_string \<sigma> v =
     (case v of
        VRef a \<Rightarrow> andthen (to_primitive_string (heap \<sigma> a)) (prim_to_string \<sigma>)
      | _ \<Rightarrow> prim_to_string \<sigma> v)"

text \<open>
  \<^verbatim>\<open>value?.toString()\<close>: \<^verbatim>\<open>undefined\<close> on \<^verbatim>\<open>null\<close> and \<^verbatim>\<open>undefined\<close>, the built-in
  method of each primitive (a symbol prints as \<^verbatim>\<open>Symbol(description)\<close>), and for an
  object the outcome of calling its method.
\<close>

definition opt_toString :: "env \<Rightarrow> val \<Rightarrow> exn + val" where
  "opt_toString \<sigma> v =
     (case v of
        VUndefined \<Rightarrow> Inr VUndefined
      | VNull \<Rightarrow> Inr VUndefined
      | VBool b \<Rightarrow> Inr (VStr (if b then ''true'' else ''false''))
      | VNum n \<Rightarrow> Inr (VStr (number_to_string \<sigma> n))
      | VStr s \<Rightarrow> Inr (VStr s)
      | VSym k \<Rightarrow> Inr (VStr (''Symbol('' @ symbol_description \<sigma> k @ '')''))
      | VBigInt i \<Rightarrow> Inr (VStr (bigint_to_string i))
      | VRef a \<Rightarrow> toString_result (heap \<sigma> a))"

subsection \<open>Array methods\<close>

text \<open>\<^verbatim>\<open>xs.map(f)\<close>, \<^verbatim>\<open>xs.every(f)\<close> and \<^verbatim>\<open>xs.some(f)\<close> with a callback that may throw:
  the callback runs on the elements in order, an exception ends the loop, and
  \<^verbatim>\<open>every\<close> and \<^verbatim>\<open>some\<close> stop at the first element that decides. These are the
  built-in methods of \<^verbatim>\<open>Array.prototype\<close>, which the library calls on arrays of its own
  (a rest parameter, the result of \<^verbatim>\<open>Object.entries\<close> or of \<^verbatim>\<open>map\<close>).\<close>

fun js_map :: "('a \<Rightarrow> exn + 'b) \<Rightarrow> 'a list \<Rightarrow> exn + 'b list" where
  "js_map f [] = Inr []"
| "js_map f (x # xs) = andthen (f x) (\<lambda>y. andthen (js_map f xs) (\<lambda>ys. Inr (y # ys)))"

fun js_every :: "('a \<Rightarrow> exn + bool) \<Rightarrow> 'a list \<Rightarrow> exn + bool" where
  "js_every f [] = Inr True"
| "js_every f (x # xs) =
     (case f x of Inl e \<Rightarrow> Inl e | Inr b \<Rightarrow> if b then js_every f xs else Inr False)"

fun js_some :: "('a \<Rightarrow> exn + bool) \<Rightarrow> 'a list \<Rightarrow> exn + bool" where
  "js_some f [] = Inr False"
| "js_some f (x # xs) =
     (case f x of Inl e \<Rightarrow> Inl e | Inr b \<Rightarrow> if b then Inr True else js_some f xs)"

text \<open>\<^verbatim>\<open>xs.join(sep)\<close>: \<^verbatim>\<open>undefined\<close> and \<^verbatim>\<open>null\<close> elements give the empty string, any
  other element its \<^verbatim>\<open>ToString\<close>.\<close>

definition join_item :: "env \<Rightarrow> val \<Rightarrow> exn + string" where
  "join_item \<sigma> v = (case v of VUndefined \<Rightarrow> Inr [] | VNull \<Rightarrow> Inr [] | _ \<Rightarrow> to_string \<sigma> v)"

fun js_join :: "env \<Rightarrow> string \<Rightarrow> val list \<Rightarrow> exn + string" where
  "js_join \<sigma> sep [] = Inr []"
| "js_join \<sigma> sep [v] = join_item \<sigma> v"
| "js_join \<sigma> sep (v # w # vs) =
     andthen (join_item \<sigma> v) (\<lambda>s. andthen (js_join \<sigma> sep (w # vs)) (\<lambda>r. Inr (s @ sep @ r)))"

definition is_array :: "env \<Rightarrow> val \<Rightarrow> bool" where
  "is_array \<sigma> v = (case v of VRef a \<Rightarrow> cls (heap \<sigma> a) = ArrayObject | _ \<Rightarrow> False)"

text \<open>The length of an Array: its \<^verbatim>\<open>length\<close> property, which an Array keeps a
  non-negative integer.\<close>

definition array_length :: "env \<Rightarrow> nat \<Rightarrow> nat" where
  "array_length \<sigma> a =
     (case obj_get \<sigma> a ''length'' of VNum (NumFinite q) \<Rightarrow> nat \<lfloor>q\<rfloor> | _ \<Rightarrow> 0)"

text \<open>The elements \<^verbatim>\<open>every\<close> visits on the Array at \<open>a\<close>: those of the indices below
  the length that are present, in order (a hole is skipped).\<close>

definition array_elements :: "env \<Rightarrow> nat \<Rightarrow> val list" where
  "array_elements \<sigma> a =
     List.map_filter (\<lambda>k. map_of (props (heap \<sigma> a)) (nat_to_decimal k)) [0..<array_length \<sigma> a]"

text \<open>
  \<^verbatim>\<open>value.every(callback)\<close> on the Array at \<open>a\<close>: the property \<^verbatim>\<open>every\<close> is read from the
  Array like any other property, and what is found is called. A value that is not a
  function is a TypeError. The built-in \<^verbatim>\<open>Array.prototype.every\<close>, which an Array
  inherits unless the key is shadowed, runs the loop above over the elements and returns
  a boolean. Any other function does what the environment says.
\<close>

definition call_every :: "env \<Rightarrow> nat \<Rightarrow> (val \<Rightarrow> exn + bool) \<Rightarrow> exn + val" where
  "call_every \<sigma> a callback =
     (case obj_get \<sigma> a ''every'' of
        VRef f \<Rightarrow>
          if cls (heap \<sigma> f) \<noteq> FunctionObject then Inl TypeError
          else if f = array_prototype_every \<sigma> then
            andthen (js_every callback (array_elements \<sigma> a)) (\<lambda>b. Inr (VBool b))
          else call_function \<sigma> f (VRef a) callback
      | _ \<Rightarrow> Inl TypeError)"

text \<open>\<^verbatim>\<open>ToBoolean\<close>: the truthiness of a value.\<close>

definition to_boolean :: "val \<Rightarrow> bool" where
  "to_boolean v =
     (case v of
        VUndefined \<Rightarrow> False
      | VNull \<Rightarrow> False
      | VBool b \<Rightarrow> b
      | VNum n \<Rightarrow> n \<noteq> NumNaN \<and> n \<noteq> NumFinite 0
      | VStr s \<Rightarrow> s \<noteq> []
      | VSym _ \<Rightarrow> True
      | VBigInt i \<Rightarrow> i \<noteq> 0
      | VRef _ \<Rightarrow> True)"

section \<open>The library\<close>

text \<open>
  A validator is a function with a property \<^verbatim>\<open>error\<close> (lines 8 to 15 of the source).
  \<open>test\<close> is the call of the function itself: it returns a boolean or throws (the one
  validator that can return something else is \<^verbatim>\<open>array\<close>, see there). \<open>error\<close> builds the
  failure message, and can throw as well.
\<close>

record validator =
  test :: "env \<Rightarrow> val \<Rightarrow> exn + bool"
  error :: "env \<Rightarrow> val \<Rightarrow> exn + string"

definition createValidator ::
  "(env \<Rightarrow> val \<Rightarrow> exn + bool) \<Rightarrow> (env \<Rightarrow> val \<Rightarrow> exn + string) \<Rightarrow> validator" where
  "createValidator validator err = \<lparr>test = validator, error = err\<rparr>"

subsection \<open>Primitive validators (lines 25 to 29)\<close>

definition string :: validator where
  "string = createValidator
     (\<lambda>\<sigma> value. Inr (js_typeof \<sigma> value = ''string''))
     (\<lambda>\<sigma> value. Inr (''Expected string, got '' @ js_typeof \<sigma> value))"

definition number :: validator where
  "number = createValidator
     (\<lambda>\<sigma> value. Inr (js_typeof \<sigma> value = ''number''))
     (\<lambda>\<sigma> value. Inr (''Expected number, got '' @ js_typeof \<sigma> value))"

definition boolean :: validator where
  "boolean = createValidator
     (\<lambda>\<sigma> value. Inr (js_typeof \<sigma> value = ''boolean''))
     (\<lambda>\<sigma> value. Inr (''Expected boolean, got '' @ js_typeof \<sigma> value))"

definition symbol :: validator where
  "symbol = createValidator
     (\<lambda>\<sigma> value. Inr (js_typeof \<sigma> value = ''symbol''))
     (\<lambda>\<sigma> value. Inr (''Expected symbol, got '' @ js_typeof \<sigma> value))"

definition bigint :: validator where
  "bigint = createValidator
     (\<lambda>\<sigma> value. Inr (js_typeof \<sigma> value = ''bigint''))
     (\<lambda>\<sigma> value. Inr (''Expected bigint, got '' @ js_typeof \<sigma> value))"

subsection \<open>Optionality (lines 31 and 32)\<close>

definition nullable :: "validator \<Rightarrow> validator" where
  "nullable validator = createValidator
     (\<lambda>\<sigma> value. orelse (Inr (strict_eq value VNull)) (test validator \<sigma> value))
     (\<lambda>\<sigma> value. andthen (error validator \<sigma> value) (\<lambda>inner.
        Inr (''Expected null or '' @ inner @ '', got '' @ js_typeof \<sigma> value)))"

definition undefinable :: "validator \<Rightarrow> validator" where
  "undefinable validator = createValidator
     (\<lambda>\<sigma> value. orelse (Inr (strict_eq value VUndefined)) (test validator \<sigma> value))
     (\<lambda>\<sigma> value. andthen (error validator \<sigma> value) (\<lambda>inner.
        Inr (''Expected undefined or '' @ inner @ '', got '' @ js_typeof \<sigma> value)))"

subsection \<open>Sets of values (lines 34 to 36)\<close>

definition literal :: "val \<Rightarrow> validator" where
  "literal value = createValidator
     (\<lambda>\<sigma> v. Inr (strict_eq v value))
     (\<lambda>\<sigma> v.
        andthen (opt_toString \<sigma> value) (\<lambda>a. andthen (to_string \<sigma> a) (\<lambda>expected.
        andthen (opt_toString \<sigma> v) (\<lambda>b. andthen (to_string \<sigma> b) (\<lambda>got.
        Inr (''Expected '' @ expected @ '', got '' @ got))))))"

definition oneOf :: "val list \<Rightarrow> validator" where
  "oneOf values = createValidator
     (\<lambda>\<sigma> value. Inr (js_includes values value))
     (\<lambda>\<sigma> value.
        andthen (js_map (opt_toString \<sigma>) values) (\<lambda>items.
        andthen (js_join \<sigma> '', '' items) (\<lambda>listed.
        andthen (opt_toString \<sigma> value) (\<lambda>b. andthen (to_string \<sigma> b) (\<lambda>got.
        Inr (''Expected one of '' @ listed @ '', got '' @ got))))))"

definition oneOfType :: "validator \<Rightarrow> val list \<Rightarrow> validator" where
  "oneOfType type values = createValidator
     (\<lambda>\<sigma> value. Inr (js_includes values value))
     (\<lambda>\<sigma> value.
        andthen (js_map (\<lambda>v. andthen (error type \<sigma> v) (\<lambda>s. Inr (VStr s))) values) (\<lambda>items.
        andthen (js_join \<sigma> '', '' items) (\<lambda>listed.
        andthen (opt_toString \<sigma> value) (\<lambda>b. andthen (to_string \<sigma> b) (\<lambda>got.
        Inr (''Expected one of '' @ listed @ '', got '' @ got))))))"

subsection \<open>Structure (lines 38 and 39)\<close>

text \<open>
  The shape is given by its entries, in the order of \<^verbatim>\<open>Object.entries\<close>. Behind the two
  guards the value is an object, so \<^verbatim>\<open>value[key]\<close> is a read of a property of that
  object; the last branch of the case is never reached.
\<close>

definition object :: "(string \<times> validator) list \<Rightarrow> validator" where
  "object validators = createValidator
     (\<lambda>\<sigma> value.
        andalso (Inr (\<not> strict_eq value VNull))
       (andalso (Inr (js_typeof \<sigma> value = ''object''))
          (case value of
             VRef a \<Rightarrow> js_every (\<lambda>(key, validator). test validator \<sigma> (obj_get \<sigma> a key)) validators
           | _ \<Rightarrow> Inr False)))
     (\<lambda>\<sigma> value. Inr (''Expected object, got '' @ js_typeof \<sigma> value))"

text \<open>
  Behind the guard \<^verbatim>\<open>Array.isArray(value)\<close> the value is an object, and the test returns
  what \<^verbatim>\<open>value.every(...)\<close> returns. That is a boolean when \<^verbatim>\<open>every\<close> is the built-in
  method. Of what another function stored under \<^verbatim>\<open>every\<close> returns the model keeps the
  truthiness, which is all that \<^verbatim>\<open>&&\<close>, \<^verbatim>\<open>||\<close>, \<^verbatim>\<open>every\<close>, \<^verbatim>\<open>some\<close> and the \<^verbatim>\<open>if\<close> of
  \<^verbatim>\<open>parse\<close> look at in the result of a validator.
\<close>

definition array :: "validator \<Rightarrow> validator" where
  "array validator = createValidator
     (\<lambda>\<sigma> value.
        andalso (Inr (is_array \<sigma> value))
          (case value of
             VRef a \<Rightarrow> andthen (call_every \<sigma> a (\<lambda>v. test validator \<sigma> v)) (\<lambda>r. Inr (to_boolean r))
           | _ \<Rightarrow> Inr False))
     (\<lambda>\<sigma> value. Inr (''Expected array, got '' @ js_typeof \<sigma> value))"

subsection \<open>Union and intersection (lines 41 and 42)\<close>

definition union_validator :: "validator list \<Rightarrow> validator" where
  "union_validator validators = createValidator
     (\<lambda>\<sigma> value. js_some (\<lambda>validator. test validator \<sigma> value) validators)
     (\<lambda>\<sigma> value.
        andthen (js_map (\<lambda>validator. andthen (error validator \<sigma> value) (\<lambda>s. Inr (VStr s))) validators) (\<lambda>items.
        andthen (js_join \<sigma> '', '' items) (\<lambda>listed.
        andthen (opt_toString \<sigma> value) (\<lambda>b. andthen (to_string \<sigma> b) (\<lambda>got.
        Inr (''Expected one of '' @ listed @ '', got '' @ got))))))"

definition intersection :: "validator list \<Rightarrow> validator" where
  "intersection validators = createValidator
     (\<lambda>\<sigma> value. js_every (\<lambda>validator. test validator \<sigma> value) validators)
     (\<lambda>\<sigma> value.
        andthen (js_map (\<lambda>validator. andthen (error validator \<sigma> value) (\<lambda>s. Inr (VStr s))) validators) (\<lambda>items.
        andthen (js_join \<sigma> '', '' items) (\<lambda>listed.
        andthen (opt_toString \<sigma> value) (\<lambda>b. andthen (to_string \<sigma> b) (\<lambda>got.
        Inr (''Expected intersection of '' @ listed @ '', got '' @ got))))))"

subsection \<open>Bounds on the value (lines 44 to 46)\<close>

definition min_validator :: "validator \<Rightarrow> jsnum \<Rightarrow> validator" where
  "min_validator validator min_bound = createValidator
     (\<lambda>\<sigma> value. andalso (test validator \<sigma> value) (js_ge \<sigma> value min_bound))
     (\<lambda>\<sigma> value.
        andthen (error validator \<sigma> value) (\<lambda>inner.
        andthen (to_string \<sigma> value) (\<lambda>got.
        Inr (''Expected '' @ inner @ '' >= '' @ number_to_string \<sigma> min_bound @ '', got '' @ got))))"

definition max_validator :: "validator \<Rightarrow> jsnum \<Rightarrow> validator" where
  "max_validator validator max_bound = createValidator
     (\<lambda>\<sigma> value. andalso (test validator \<sigma> value) (js_le \<sigma> value max_bound))
     (\<lambda>\<sigma> value.
        andthen (error validator \<sigma> value) (\<lambda>inner.
        andthen (to_string \<sigma> value) (\<lambda>got.
        Inr (''Expected '' @ inner @ '' <= '' @ number_to_string \<sigma> max_bound @ '', got '' @ got))))"

definition range_validator :: "validator \<Rightarrow> jsnum \<Rightarrow> jsnum \<Rightarrow> validator" where
  "range_validator validator min_bound max_bound = createValidator
     (\<lambda>\<sigma> value.
        andalso (andalso (test validator \<sigma> value) (js_ge \<sigma> value min_bound))
                (js_le \<sigma> value max_bound))
     (\<lambda>\<sigma> value.
        andthen (error validator \<sigma> value) (\<lambda>inner.
        andthen (to_string \<sigma> value) (\<lambda>got.
        Inr (''Expected '' @ inner @ '' >= '' @ number_to_string \<sigma> min_bound
             @ '' && <= '' @ number_to_string \<sigma> max_bound @ '', got '' @ got))))"

subsection \<open>Bounds on the length (lines 48 to 51)\<close>

definition length_validator :: "validator \<Rightarrow> jsnum \<Rightarrow> validator" where
  "length_validator validator len = createValidator
     (\<lambda>\<sigma> value.
        andalso (test validator \<sigma> value)
                (andthen (get_length \<sigma> value) (\<lambda>l. Inr (strict_eq l (VNum len)))))
     (\<lambda>\<sigma> value.
        andthen (error validator \<sigma> value) (\<lambda>inner.
        andthen (to_string \<sigma> value) (\<lambda>got.
        Inr (''Expected '' @ inner @ ''.length === '' @ number_to_string \<sigma> len @ '', got '' @ got))))"

definition minLength :: "validator \<Rightarrow> jsnum \<Rightarrow> validator" where
  "minLength validator min_bound = createValidator
     (\<lambda>\<sigma> value.
        andalso (test validator \<sigma> value)
                (andthen (get_length \<sigma> value) (\<lambda>l. js_ge \<sigma> l min_bound)))
     (\<lambda>\<sigma> value.
        andthen (error validator \<sigma> value) (\<lambda>inner.
        andthen (to_string \<sigma> value) (\<lambda>got.
        Inr (''Expected '' @ inner @ ''.length >= '' @ number_to_string \<sigma> min_bound @ '', got '' @ got))))"

definition maxLength :: "validator \<Rightarrow> jsnum \<Rightarrow> validator" where
  "maxLength validator max_bound = createValidator
     (\<lambda>\<sigma> value.
        andalso (test validator \<sigma> value)
                (andthen (get_length \<sigma> value) (\<lambda>l. js_le \<sigma> l max_bound)))
     (\<lambda>\<sigma> value.
        andthen (error validator \<sigma> value) (\<lambda>inner.
        andthen (to_string \<sigma> value) (\<lambda>got.
        Inr (''Expected '' @ inner @ ''.length <= '' @ number_to_string \<sigma> max_bound @ '', got '' @ got))))"

definition rangeLength :: "validator \<Rightarrow> jsnum \<Rightarrow> jsnum \<Rightarrow> validator" where
  "rangeLength validator min_bound max_bound = createValidator
     (\<lambda>\<sigma> value.
        andalso (andalso (test validator \<sigma> value)
                         (andthen (get_length \<sigma> value) (\<lambda>l. js_ge \<sigma> l min_bound)))
                (andthen (get_length \<sigma> value) (\<lambda>l. js_le \<sigma> l max_bound)))
     (\<lambda>\<sigma> value.
        andthen (error validator \<sigma> value) (\<lambda>inner.
        andthen (to_string \<sigma> value) (\<lambda>got.
        Inr (''Expected '' @ inner @ ''.length >= '' @ number_to_string \<sigma> min_bound
             @ '' && <= '' @ number_to_string \<sigma> max_bound @ '', got '' @ got))))"

subsection \<open>The entry points (lines 53 to 62)\<close>

definition parse :: "validator \<Rightarrow> env \<Rightarrow> val \<Rightarrow> exn + val" where
  "parse validator \<sigma> value =
     andthen (test validator \<sigma> value) (\<lambda>accepted.
       if accepted then Inr value
       else andthen (error validator \<sigma> value) (\<lambda>msg. Inl (Error msg)))"

definition parseUnknown :: "validator \<Rightarrow> env \<Rightarrow> val \<Rightarrow> exn + val" where
  "parseUnknown validator \<sigma> value = parse validator \<sigma> value"

subsection \<open>The usage at the end of the source (lines 68 to 96)\<close>

definition person :: validator where
  "person = object
     [(''name'', rangeLength string (NumFinite 1) (NumFinite 32)),
      (''age'', nullable (min_validator number (NumFinite 0))),
      (''sex'', union_validator [literal (VStr ''man''), literal (VStr ''woman'')]),
      (''city'', nullable (oneOf
         [VStr (''Krak'' @ [CHR 0xF3] @ ''w''), VStr ''Oaxaca'', VStr ''Moscow'', VStr ''Kabul'',
          VStr ''Baghdad'', VStr ''Kuala, Lumpur'', VStr ''Jeddah'', VStr ''Riyadh'',
          VStr ''Mogadishu'', VStr ''Dubai'', VStr ''Abu Dhabi'', VStr ''Sanaa'', VStr ''Ibadan'',
          VStr ''Taizz'', VStr ''Tehran'']))]"

definition memberRole :: validator where
  "memberRole = oneOf [VStr ''admin'', VStr ''moderator'', VStr ''user'']"

definition member :: validator where
  "member = intersection [person, object [(''id'', string), (''role'', memberRole)]]"

section \<open>Notions used to state the properties\<close>

text \<open>
  \<open>numeric_operand \<sigma> v\<close>: \<open>v\<close> can stand on the left of \<^verbatim>\<open>>=\<close> or \<^verbatim>\<open><=\<close> against a
  number without an exception: it is not a symbol, and if it is an object, its conversion
  to a primitive returns a primitive other than a symbol.
  \<open>readable_length \<sigma> v\<close>: \<^verbatim>\<open>v.length\<close> can be read, that is \<open>v\<close> is neither \<^verbatim>\<open>null\<close> nor
  \<^verbatim>\<open>undefined\<close>. \<open>numeric_length \<sigma> v\<close>: moreover that length is a numeric operand.
\<close>

definition numeric_operand :: "env \<Rightarrow> val \<Rightarrow> bool" where
  "numeric_operand \<sigma> v =
     (case andthen (to_primitive \<sigma> v) (to_numeric \<sigma>) of Inl _ \<Rightarrow> False | Inr _ \<Rightarrow> True)"

definition readable_length :: "env \<Rightarrow> val \<Rightarrow> bool" where
  "readable_length \<sigma> v = (case get_length \<sigma> v of Inl _ \<Rightarrow> False | Inr _ \<Rightarrow> True)"

definition numeric_length :: "env \<Rightarrow> val \<Rightarrow> bool" where
  "numeric_length \<sigma> v =
     (case get_length \<sigma> v of Inl _ \<Rightarrow> False | Inr l \<Rightarrow> numeric_operand \<sigma> l)"

text \<open>
  \<open>builtin_every \<sigma>\<close>: in the heap of \<open>\<sigma>\<close> every Array reads, under the key \<^verbatim>\<open>every\<close>, the
  built-in function \<^verbatim>\<open>Array.prototype.every\<close>. This is so unless a program has stored
  something else under that key, on an Array or on \<^verbatim>\<open>Array.prototype\<close>.
\<close>

definition builtin_every :: "env \<Rightarrow> bool" where
  "builtin_every \<sigma> \<longleftrightarrow>
     cls (heap \<sigma> (array_prototype_every \<sigma>)) = FunctionObject
     \<and> (\<forall>a. cls (heap \<sigma> a) = ArrayObject
            \<longrightarrow> obj_get \<sigma> a ''every'' = VRef (array_prototype_every \<sigma>))"

text \<open>
  The validators built from the factories of the library in which every bound sits on
  an inner validator that accepts only values the bound can be applied to: a numeric
  operand under \<^verbatim>\<open>min\<close>, \<^verbatim>\<open>max\<close> and \<^verbatim>\<open>range\<close>, a value with a readable length
  under \<^verbatim>\<open>length\<close>, and with a numeric length under \<^verbatim>\<open>minLength\<close>, \<^verbatim>\<open>maxLength\<close> and
  \<^verbatim>\<open>rangeLength\<close>. The other factories are unrestricted.
\<close>

inductive well_guarded :: "validator \<Rightarrow> bool" where
  wg_string: "well_guarded string"
| wg_number: "well_guarded number"
| wg_boolean: "well_guarded boolean"
| wg_symbol: "well_guarded symbol"
| wg_bigint: "well_guarded bigint"
| wg_nullable: "well_guarded V \<Longrightarrow> well_guarded (nullable V)"
| wg_undefinable: "well_guarded V \<Longrightarrow> well_guarded (undefinable V)"
| wg_literal: "well_guarded (literal v)"
| wg_oneOf: "well_guarded (oneOf vs)"
| wg_oneOfType: "well_guarded (oneOfType T vs)"
| wg_object: "(\<forall>V \<in> snd ` set shape. well_guarded V) \<Longrightarrow> well_guarded (object shape)"
| wg_array: "well_guarded V \<Longrightarrow> well_guarded (array V)"
| wg_union: "(\<forall>V \<in> set Vs. well_guarded V) \<Longrightarrow> well_guarded (union_validator Vs)"
| wg_intersection: "(\<forall>V \<in> set Vs. well_guarded V) \<Longrightarrow> well_guarded (intersection Vs)"
| wg_min: "well_guarded V \<Longrightarrow> (\<forall>\<sigma> x. test V \<sigma> x = Inr True \<longrightarrow> numeric_operand \<sigma> x)
     \<Longrightarrow> well_guarded (min_validator V m)"
| wg_max: "well_guarded V \<Longrightarrow> (\<forall>\<sigma> x. test V \<sigma> x = Inr True \<longrightarrow> numeric_operand \<sigma> x)
     \<Longrightarrow> well_guarded (max_validator V m)"
| wg_range: "well_guarded V \<Longrightarrow> (\<forall>\<sigma> x. test V \<sigma> x = Inr True \<longrightarrow> numeric_operand \<sigma> x)
     \<Longrightarrow> well_guarded (range_validator V m n)"
| wg_length: "well_guarded V \<Longrightarrow> (\<forall>\<sigma> x. test V \<sigma> x = Inr True \<longrightarrow> readable_length \<sigma> x)
     \<Longrightarrow> well_guarded (length_validator V n)"
| wg_minLength: "well_guarded V \<Longrightarrow> (\<forall>\<sigma> x. test V \<sigma> x = Inr True \<longrightarrow> numeric_length \<sigma> x)
     \<Longrightarrow> well_guarded (minLength V m)"
| wg_maxLength: "well_guarded V \<Longrightarrow> (\<forall>\<sigma> x. test V \<sigma> x = Inr True \<longrightarrow> numeric_length \<sigma> x)
     \<Longrightarrow> well_guarded (maxLength V m)"
| wg_rangeLength: "well_guarded V \<Longrightarrow> (\<forall>\<sigma> x. test V \<sigma> x = Inr True \<longrightarrow> numeric_length \<sigma> x)
     \<Longrightarrow> well_guarded (rangeLength V m n)"

section \<open>An environment for the examples\<close>

text \<open>
  What an object literal inherits from \<^verbatim>\<open>Object.prototype\<close>, and an Array literal from
  \<^verbatim>\<open>Array.prototype\<close> and then from \<^verbatim>\<open>Object.prototype\<close>: the data properties with a
  string key that ECMAScript 2023 defines there, each holding a built-in function of its
  own, at the addresses from 100 and from 200. The accessor \<^verbatim>\<open>__proto__\<close> is not a data
  property and is left out.
\<close>

definition object_prototype_props :: "(string \<times> val) list" where
  "object_prototype_props =
    [(''constructor'', VRef 100), (''__defineGetter__'', VRef 101),
     (''__defineSetter__'', VRef 102), (''hasOwnProperty'', VRef 103),
     (''__lookupGetter__'', VRef 104), (''__lookupSetter__'', VRef 105),
     (''isPrototypeOf'', VRef 106), (''propertyIsEnumerable'', VRef 107),
     (''toString'', VRef 108), (''valueOf'', VRef 109), (''toLocaleString'', VRef 110)]"

definition array_prototype_props :: "(string \<times> val) list" where
  "array_prototype_props =
    [(''at'', VRef 200), (''concat'', VRef 201), (''constructor'', VRef 202),
     (''copyWithin'', VRef 203), (''entries'', VRef 204), (''every'', VRef 205),
     (''fill'', VRef 206), (''filter'', VRef 207), (''find'', VRef 208),
     (''findIndex'', VRef 209), (''findLast'', VRef 210), (''findLastIndex'', VRef 211),
     (''flat'', VRef 212), (''flatMap'', VRef 213), (''forEach'', VRef 214),
     (''includes'', VRef 215), (''indexOf'', VRef 216), (''join'', VRef 217),
     (''keys'', VRef 218), (''lastIndexOf'', VRef 219), (''map'', VRef 220),
     (''pop'', VRef 221), (''push'', VRef 222), (''reduce'', VRef 223),
     (''reduceRight'', VRef 224), (''reverse'', VRef 225), (''shift'', VRef 226),
     (''slice'', VRef 227), (''some'', VRef 228), (''sort'', VRef 229), (''splice'', VRef 230),
     (''toLocaleString'', VRef 231), (''toReversed'', VRef 232), (''toSorted'', VRef 233),
     (''toSpliced'', VRef 234), (''toString'', VRef 235), (''unshift'', VRef 236),
     (''values'', VRef 237), (''with'', VRef 238), (''length'', VNum (NumFinite 0))]"

text \<open>
  \<open>plain_object ps\<close> is the object of a literal \<^verbatim>\<open>{ ... }\<close> with the own properties \<open>ps\<close>,
  and \<open>array_object ps s\<close> an Array with the own properties \<open>ps\<close> (its length and its
  elements) that prints as \<open>s\<close>; \<open>empty_array\<close> is \<^verbatim>\<open>[]\<close>. Each has the conversions it
  inherits from its prototype. \<open>builtin_function\<close> stands for each of the built-in
  functions above: the examples use of them only that they are functions, and of these
  only \<^verbatim>\<open>Array.prototype.every\<close> is called, so their own properties (length, name) and
  those they inherit are not listed.
\<close>

definition plain_object :: "(string \<times> val) list \<Rightarrow> jsobj" where
  "plain_object ps =
     \<lparr>cls = PlainObject, own = ps, inherited = object_prototype_props,
      to_primitive_number = Inr (VStr ''[object Object]''),
      to_primitive_string = Inr (VStr ''[object Object]''),
      toString_result = Inr (VStr ''[object Object]'')\<rparr>"

text \<open>An object literal whose own property \<^verbatim>\<open>toString\<close> is not a function: it cannot be
  converted to a primitive, and a call of its \<^verbatim>\<open>toString\<close> is a TypeError.\<close>

definition without_toString :: "(string \<times> val) list \<Rightarrow> jsobj" where
  "without_toString ps =
     \<lparr>cls = PlainObject, own = ps, inherited = object_prototype_props,
      to_primitive_number = Inl TypeError,
      to_primitive_string = Inl TypeError,
      toString_result = Inl TypeError\<rparr>"

definition array_object :: "(string \<times> val) list \<Rightarrow> string \<Rightarrow> jsobj" where
  "array_object ps s =
     \<lparr>cls = ArrayObject, own = ps, inherited = array_prototype_props @ object_prototype_props,
      to_primitive_number = Inr (VStr s),
      to_primitive_string = Inr (VStr s),
      toString_result = Inr (VStr s)\<rparr>"

definition empty_array :: jsobj where
  "empty_array = array_object [(''length'', VNum (NumFinite 0))] []"

definition builtin_function :: jsobj where
  "builtin_function =
     \<lparr>cls = FunctionObject, own = [], inherited = [],
      to_primitive_number = Inr (VStr ''function () { [native code] }''),
      to_primitive_string = Inr (VStr ''function () { [native code] }''),
      toString_result = Inr (VStr ''function () { [native code] }'')\<rparr>"

text \<open>
  The heap of the examples:
  \<^item> 0 and 3: two objects \<^verbatim>\<open>{name: "a", extra: 1}\<close>;
  \<^item> 1: \<^verbatim>\<open>{name: 1}\<close>; 2: \<^verbatim>\<open>[]\<close>; 4: \<^verbatim>\<open>{name: "a"}\<close>; 5: \<^verbatim>\<open>{name: "a", age: undefined}\<close>;
  \<^item> 6: \<^verbatim>\<open>{name: "Al", age: null, sex: "man", city: null}\<close>;
  \<^item> 7: \<^verbatim>\<open>{name: "", age: 5, sex: "man", city: null}\<close>;
  \<^item> 8: \<^verbatim>\<open>{name: "Al", age: -1, sex: "man", city: null}\<close>;
  \<^item> 9: \<^verbatim>\<open>{name: "a", toString: undefined}\<close>; 10: \<^verbatim>\<open>[5, -1]\<close>;
  \<^item> 100 to 110 and 200 to 238: the built-in functions, \<^verbatim>\<open>Array.prototype.every\<close> at 205;
  \<^item> every other address: \<^verbatim>\<open>{}\<close>.
\<close>

definition example_heap :: "nat \<Rightarrow> jsobj" where
  "example_heap a =
     (if a = 0 then plain_object [(''name'', VStr ''a''), (''extra'', VNum (NumFinite 1))]
      else if a = 1 then plain_object [(''name'', VNum (NumFinite 1))]
      else if a = 2 then empty_array
      else if a = 3 then plain_object [(''name'', VStr ''a''), (''extra'', VNum (NumFinite 1))]
      else if a = 4 then plain_object [(''name'', VStr ''a'')]
      else if a = 5 then plain_object [(''name'', VStr ''a''), (''age'', VUndefined)]
      else if a = 6 then plain_object
        [(''name'', VStr ''Al''), (''age'', VNull), (''sex'', VStr ''man''), (''city'', VNull)]
      else if a = 7 then plain_object
        [(''name'', VStr []), (''age'', VNum (NumFinite 5)), (''sex'', VStr ''man''), (''city'', VNull)]
      else if a = 8 then plain_object
        [(''name'', VStr ''Al''), (''age'', VNum (NumFinite (- 1))), (''sex'', VStr ''man''), (''city'', VNull)]
      else if a = 9 then without_toString [(''name'', VStr ''a''), (''toString'', VUndefined)]
      else if a = 10 then array_object
        [(''length'', VNum (NumFinite 2)), (''0'', VNum (NumFinite 5)), (''1'', VNum (NumFinite (- 1)))]
        ''5,-1''
      else if (100 \<le> a \<and> a \<le> 110) \<or> (200 \<le> a \<and> a \<le> 238) then builtin_function
      else plain_object [])"

text \<open>
  The engine of the examples prints an integer as its decimal numeral and converts a
  string of decimal digits to the number it writes (the empty string to 0); the examples
  print no other number and convert no other string. Its symbols have no description.
  The examples call no function but \<^verbatim>\<open>Array.prototype.every\<close>, and a call of any other
  function is taken to return \<^verbatim>\<open>undefined\<close>.
\<close>

definition digit_value :: "char \<Rightarrow> nat option" where
  "digit_value c =
     (let k = (of_char c :: nat) in if 48 \<le> k \<and> k \<le> 57 then Some (k - 48) else None)"

fun decimal_value :: "nat \<Rightarrow> string \<Rightarrow> nat option" where
  "decimal_value acc [] = Some acc"
| "decimal_value acc (c # cs) =
     (case digit_value c of None \<Rightarrow> None | Some d \<Rightarrow> decimal_value (10 * acc + d) cs)"

definition example_env :: env where
  "example_env =
     \<lparr>heap = example_heap,
      finite_to_string = (\<lambda>q. bigint_to_string \<lfloor>q\<rfloor>),
      string_to_number =
        (\<lambda>s. case decimal_value 0 s of None \<Rightarrow> NumNaN | Some n \<Rightarrow> NumFinite (of_nat n)),
      symbol_description = (\<lambda>k. []),
      array_prototype_every = 205,
      call_function = (\<lambda>f receiver callback. Inr VUndefined)\<rparr>"

text \<open>
  The same environment after \<^verbatim>\<open>a = []; a.every = 5\<close>, with the Array \<open>a\<close> at the address
  11: an Array whose own property \<^verbatim>\<open>every\<close> shadows the built-in method.
\<close>

definition shadowed_heap :: "nat \<Rightarrow> jsobj" where
  "shadowed_heap a =
     (if a = 11 then array_object
        [(''length'', VNum (NumFinite 0)), (''every'', VNum (NumFinite 5))] []
      else example_heap a)"

definition shadowed_env :: env where
  "shadowed_env = example_env\<lparr>heap := shadowed_heap\<rparr>"

section \<open>Basic facts\<close>

lemma createValidator_sel [simp]:
  "test (createValidator t e) = t" "error (createValidator t e) = e"
  by (simp_all add: createValidator_def)

lemma andthen_simps [simp]:
  "andthen (Inl e) f = Inl e" "andthen (Inr a) f = f a"
  by (simp_all add: andthen_def)

lemma orelse_simps [simp]:
  "orelse (Inl e) q = Inl e" "orelse (Inr True) q = Inr True" "orelse (Inr False) q = q"
  by (simp_all add: orelse_def)

lemma andalso_simps [simp]:
  "andalso (Inl e) q = Inl e" "andalso (Inr True) q = q" "andalso (Inr False) q = Inr False"
  by (simp_all add: andalso_def)

lemma orelse_False_right: "orelse p (Inr False) = p"
  by (auto simp: orelse_def split: sum.splits)

lemma andalso_True_right: "andalso p (Inr True) = p"
  by (auto simp: andalso_def split: sum.splits)

lemma andalso_True_iff: "andalso p q = Inr True \<longleftrightarrow> p = Inr True \<and> q = Inr True"
  by (auto simp: andalso_def split: sum.splits)




subsection \<open>Equality and membership\<close>

lemma strict_eq_iff: "strict_eq x y \<longleftrightarrow> x = y \<and> x \<noteq> VNum NumNaN"
  by (cases x; cases y) auto

lemma same_value_zero_iff: "same_value_zero x y \<longleftrightarrow> x = y"
  by (cases x; cases y) auto

lemma js_includes_iff: "js_includes vs x \<longleftrightarrow> x \<in> set vs"
  by (induction vs) (auto simp: same_value_zero_iff)

subsection \<open>The loops\<close>

lemma js_some_foldr: "js_some f xs = foldr (\<lambda>x r. orelse (f x) r) xs (Inr False)"
  by (induction xs) (auto simp: orelse_def split: sum.splits)

lemma js_every_foldr: "js_every f xs = foldr (\<lambda>x r. andalso (f x) r) xs (Inr True)"
  by (induction xs) (auto simp: andalso_def split: sum.splits)

lemma js_some_bool:
  "\<forall>x \<in> set xs. \<exists>b. f x = Inr b \<Longrightarrow> js_some f xs = Inr (\<exists>x \<in> set xs. f x = Inr True)"
  by (induction xs) (auto split: sum.splits)

lemma js_every_bool:
  "\<forall>x \<in> set xs. \<exists>b. f x = Inr b \<Longrightarrow> js_every f xs = Inr (\<forall>x \<in> set xs. f x = Inr True)"
  by (induction xs) (auto split: sum.splits)

lemma js_every_True_iff: "js_every f xs = Inr True \<longleftrightarrow> (\<forall>x \<in> set xs. f x = Inr True)"
  by (induction xs) (auto split: sum.splits)



lemma js_every_cong_keys:
  "\<forall>key \<in> fst ` set shape. g key = h key \<Longrightarrow>
   js_every (\<lambda>(key, validator). test validator \<sigma> (g key)) shape
   = js_every (\<lambda>(key, validator). test validator \<sigma> (h key)) shape"
  by (induction shape) (auto split: sum.splits)

subsection \<open>Comparisons\<close>

lemma js_ge_number: "js_ge \<sigma> (VNum (NumFinite q)) (NumFinite lo) = Inr (lo \<le> q)"
  by (auto simp: js_ge_def to_primitive_def to_numeric_def)

lemma js_le_number: "js_le \<sigma> (VNum (NumFinite q)) (NumFinite hi) = Inr (q \<le> hi)"
  by (auto simp: js_le_def to_primitive_def to_numeric_def)











subsection \<open>The object combinator on a reference and on any other value\<close>

lemma object_kind_iff:
  "v \<noteq> VNull \<and> js_typeof \<sigma> v = ''object''
   \<longleftrightarrow> (\<exists>a. v = VRef a \<and> cls (heap \<sigma> a) \<noteq> FunctionObject)"
  by (cases v) (auto simp: js_typeof_def)

lemma object_test_ref:
  "test (object shape) \<sigma> (VRef a) =
     (if cls (heap \<sigma> a) = FunctionObject then Inr False
      else js_every (\<lambda>(key, validator). test validator \<sigma> (obj_get \<sigma> a key)) shape)"
  by (simp add: object_def js_typeof_def)

lemma object_test_not_ref: "\<forall>a. v \<noteq> VRef a \<Longrightarrow> test (object shape) \<sigma> v = Inr False"
  by (cases v) (simp_all add: object_def js_typeof_def)

subsection \<open>The example environment\<close>

lemma example_heap_simps [simp]:
  "example_heap 0 = plain_object [(''name'', VStr ''a''), (''extra'', VNum (NumFinite 1))]"
  "example_heap 1 = plain_object [(''name'', VNum (NumFinite 1))]"
  "example_heap (Suc 0) = plain_object [(''name'', VNum (NumFinite 1))]"
  "example_heap 2 = empty_array"
  "example_heap 3 = plain_object [(''name'', VStr ''a''), (''extra'', VNum (NumFinite 1))]"
  "example_heap 4 = plain_object [(''name'', VStr ''a'')]"
  "example_heap 5 = plain_object [(''name'', VStr ''a''), (''age'', VUndefined)]"
  "example_heap 6 = plain_object
     [(''name'', VStr ''Al''), (''age'', VNull), (''sex'', VStr ''man''), (''city'', VNull)]"
  "example_heap 7 = plain_object
     [(''name'', VStr []), (''age'', VNum (NumFinite 5)), (''sex'', VStr ''man''), (''city'', VNull)]"
  "example_heap 8 = plain_object
     [(''name'', VStr ''Al''), (''age'', VNum (NumFinite (- 1))), (''sex'', VStr ''man''), (''city'', VNull)]"
  "example_heap 9 = without_toString [(''name'', VStr ''a''), (''toString'', VUndefined)]"
  "example_heap 10 = array_object
     [(''length'', VNum (NumFinite 2)), (''0'', VNum (NumFinite 5)), (''1'', VNum (NumFinite (- 1)))]
     ''5,-1''"
  "example_heap 108 = builtin_function"
  "example_heap 205 = builtin_function"
  by (simp_all add: example_heap_def)

lemma example_env_heap [simp]: "heap example_env = example_heap"
  by (simp add: example_env_def)

lemma example_env_sel [simp]:
  "array_prototype_every example_env = 205"
  "call_function example_env = (\<lambda>f receiver callback. Inr VUndefined)"
  by (simp_all add: example_env_def)

lemma shadowed_env_sel [simp]:
  "heap shadowed_env = shadowed_heap" "array_prototype_every shadowed_env = 205"
  by (simp_all add: shadowed_env_def)

lemma plain_object_sel [simp]:
  "cls (plain_object ps) = PlainObject" "own (plain_object ps) = ps"
  "inherited (plain_object ps) = object_prototype_props"
  by (simp_all add: plain_object_def)

lemma without_toString_sel [simp]:
  "cls (without_toString ps) = PlainObject" "own (without_toString ps) = ps"
  "inherited (without_toString ps) = object_prototype_props"
  by (simp_all add: without_toString_def)

lemma array_object_sel [simp]:
  "cls (array_object ps s) = ArrayObject" "own (array_object ps s) = ps"
  "inherited (array_object ps s) = array_prototype_props @ object_prototype_props"
  by (simp_all add: array_object_def)

lemma empty_array_sel [simp]:
  "cls empty_array = ArrayObject" "own empty_array = [(''length'', VNum (NumFinite 0))]"
  "inherited empty_array = array_prototype_props @ object_prototype_props"
  by (simp_all add: empty_array_def)

lemma builtin_function_sel [simp]:
  "cls builtin_function = FunctionObject" "own builtin_function = []"
  "inherited builtin_function = []"
  by (simp_all add: builtin_function_def)

text \<open>A read of a key of an object: its own property, else the inherited one, else
  \<^verbatim>\<open>undefined\<close>.\<close>

lemma obj_get_own_inherited:
  "obj_get \<sigma> a key =
     (case map_of (own (heap \<sigma> a)) key of
        Some v \<Rightarrow> v
      | None \<Rightarrow> (case map_of (inherited (heap \<sigma> a)) key of Some v \<Rightarrow> v | None \<Rightarrow> VUndefined))"
  by (simp add: obj_get_def props_def map_add_def split: option.splits)

section \<open>Properties of the library\<close>

subsection \<open>Primitive validators\<close>

text \<open>
  Claim C7. For each of the five primitive validators and every value, the test returns
  true exactly when \<^verbatim>\<open>typeof\<close> of the value is the validator's kind, and it returns false
  (it does not throw) otherwise. No value is coerced: the string \<^verbatim>\<open>"123"\<close> fails the
  number validator.
\<close>

theorem primitive_test_is_typeof:
  "test string \<sigma> v = Inr (js_typeof \<sigma> v = ''string'')
   \<and> test number \<sigma> v = Inr (js_typeof \<sigma> v = ''number'')
   \<and> test boolean \<sigma> v = Inr (js_typeof \<sigma> v = ''boolean'')
   \<and> test symbol \<sigma> v = Inr (js_typeof \<sigma> v = ''symbol'')
   \<and> test bigint \<sigma> v = Inr (js_typeof \<sigma> v = ''bigint'')
   \<and> test number \<sigma> (VStr ''123'') = Inr False"
  by (simp add: string_def number_def boolean_def symbol_def bigint_def js_typeof_def)

subsection \<open>Sets of values\<close>

text \<open>
  Claim C6. For every type validator \<open>T\<close>, every list of values and every input,
  \<^verbatim>\<open>oneOfType(T, v1..vn)\<close> tests the input exactly as \<^verbatim>\<open>oneOf(v1..vn)\<close> does. The test
  does not depend on \<open>T\<close> at all: two type validators give the same test function.
\<close>

theorem oneOfType_test_is_oneOf:
  "test (oneOfType T vs) \<sigma> x = test (oneOf vs) \<sigma> x
   \<and> test (oneOfType T vs) = test (oneOfType T' vs)"
  by (simp add: oneOfType_def oneOf_def)

text \<open>
  Claim C2, as the code has it. \<^verbatim>\<open>oneOf(v1..vn)\<close> accepts a value exactly when
  \<^verbatim>\<open>includes\<close> finds it in the list, and \<^verbatim>\<open>includes\<close> compares with SameValueZero: the
  value strictly equals a listed value, or it is NaN and NaN is listed. Every other
  value is rejected, among them an object that is not a listed object although its
  contents equal those of one.
\<close>

theorem oneOf_same_value_zero:
  "test (oneOf vs) \<sigma> x
     = Inr (\<exists>v \<in> set vs. strict_eq v x \<or> (v = VNum NumNaN \<and> x = VNum NumNaN))
   \<and> (a \<noteq> b \<and> heap \<sigma> a = heap \<sigma> b \<longrightarrow> test (oneOf [VRef a]) \<sigma> (VRef b) = Inr False)"
  by (auto simp: oneOf_def js_includes_iff strict_eq_iff)

theorem oneOf_same_value_zero_witness:
  "test (oneOf [VStr ''admin'', VStr ''user'']) example_env (VStr ''user'') = Inr True
   \<and> heap example_env 0 = heap example_env 3
   \<and> test (oneOf [VRef 0]) example_env (VRef 3) = Inr False"
  using oneOf_same_value_zero [of "[VStr ''admin'', VStr ''user'']" example_env "VStr ''user''" 0 3]
    oneOf_same_value_zero [of "[VRef 0]" example_env "VRef 3" 0 3]
  by simp

text \<open>
  The claim as the specification states it (acceptance if and only if the value
  strictly equals a listed value) fails on NaN: \<^verbatim>\<open>oneOf(NaN)\<close> accepts NaN, and
  \<^verbatim>\<open>NaN === NaN\<close> is false.
\<close>

theorem oneOf_strict_equality_counterexample:
  "test (oneOf [VNum NumNaN]) example_env (VNum NumNaN) = Inr True
   \<and> \<not> strict_eq (VNum NumNaN) (VNum NumNaN)"
  by (simp add: oneOf_def)

subsection \<open>Union and intersection\<close>

text \<open>
  Claim C4. For all validators \<open>A\<close> and \<open>B\<close> and every value, the test of
  \<^verbatim>\<open>union(A, B)\<close> is \<^verbatim>\<open>A(x) || B(x)\<close> and the test of \<^verbatim>\<open>intersection(A, B)\<close> is
  \<^verbatim>\<open>A(x) && B(x)\<close>; when both children return booleans these are their disjunction and
  conjunction. For any number of children the test is the same fold over the children,
  left to right, and when every child returns a boolean it is true exactly when some
  child accepts (union) or every child accepts (intersection).
\<close>

theorem union_intersection_pointwise:
  "test (union_validator [A, B]) \<sigma> x = orelse (test A \<sigma> x) (test B \<sigma> x)
   \<and> test (intersection [A, B]) \<sigma> x = andalso (test A \<sigma> x) (test B \<sigma> x)
   \<and> (test A \<sigma> x = Inr p \<and> test B \<sigma> x = Inr q \<longrightarrow>
        test (union_validator [A, B]) \<sigma> x = Inr (p \<or> q)
        \<and> test (intersection [A, B]) \<sigma> x = Inr (p \<and> q))
   \<and> test (union_validator Vs) \<sigma> x = foldr (\<lambda>V r. orelse (test V \<sigma> x) r) Vs (Inr False)
   \<and> test (intersection Vs) \<sigma> x = foldr (\<lambda>V r. andalso (test V \<sigma> x) r) Vs (Inr True)
   \<and> ((\<forall>V \<in> set Vs. \<exists>b. test V \<sigma> x = Inr b) \<longrightarrow>
        test (union_validator Vs) \<sigma> x = Inr (\<exists>V \<in> set Vs. test V \<sigma> x = Inr True)
        \<and> test (intersection Vs) \<sigma> x = Inr (\<forall>V \<in> set Vs. test V \<sigma> x = Inr True))"
proof (intro conjI impI)
  show "test (union_validator [A, B]) \<sigma> x = orelse (test A \<sigma> x) (test B \<sigma> x)"
    by (simp add: union_validator_def js_some_foldr orelse_False_right)
  show "test (intersection [A, B]) \<sigma> x = andalso (test A \<sigma> x) (test B \<sigma> x)"
    by (simp add: intersection_def js_every_foldr andalso_True_right)
  show "test (union_validator Vs) \<sigma> x = foldr (\<lambda>V r. orelse (test V \<sigma> x) r) Vs (Inr False)"
    by (simp add: union_validator_def js_some_foldr)
  show "test (intersection Vs) \<sigma> x = foldr (\<lambda>V r. andalso (test V \<sigma> x) r) Vs (Inr True)"
    by (simp add: intersection_def js_every_foldr)
next
  assume "test A \<sigma> x = Inr p \<and> test B \<sigma> x = Inr q"
  then show "test (union_validator [A, B]) \<sigma> x = Inr (p \<or> q)"
    and "test (intersection [A, B]) \<sigma> x = Inr (p \<and> q)"
    by (auto simp: union_validator_def intersection_def)
next
  assume "\<forall>V \<in> set Vs. \<exists>b. test V \<sigma> x = Inr b"
  then show "test (union_validator Vs) \<sigma> x = Inr (\<exists>V \<in> set Vs. test V \<sigma> x = Inr True)"
    and "test (intersection Vs) \<sigma> x = Inr (\<forall>V \<in> set Vs. test V \<sigma> x = Inr True)"
    by (simp_all add: union_validator_def intersection_def js_some_bool js_every_bool)
qed

theorem union_intersection_pointwise_witness:
  "test string example_env (VStr ''a'') = Inr True
   \<and> test number example_env (VStr ''a'') = Inr False
   \<and> test (union_validator [string, number]) example_env (VStr ''a'') = Inr True
   \<and> test (intersection [string, number]) example_env (VStr ''a'') = Inr False"
  using union_intersection_pointwise
    [of string number example_env "VStr ''a''" True False "[string, number]"]
  by (simp add: string_def number_def js_typeof_def)

subsection \<open>The object combinator\<close>

text \<open>
  Claim C5. For every shape and every value, the test of \<^verbatim>\<open>object(shape)\<close> is true if
  and only if the value is not \<^verbatim>\<open>null\<close>, its \<^verbatim>\<open>typeof\<close> is \<^verbatim>\<open>"object"\<close>, and for every key the
  shape declares the validator of that key accepts what the value holds at that key. The
  keys the shape does not declare do not occur in the condition. In particular
  \<^verbatim>\<open>object({name: string})\<close> accepts \<^verbatim>\<open>{name: "a", extra: 1}\<close> and rejects \<^verbatim>\<open>{name: 1}\<close> and
  \<^verbatim>\<open>null\<close>.
\<close>

theorem object_test_iff:
  "(test (object shape) \<sigma> v = Inr True \<longleftrightarrow>
      v \<noteq> VNull \<and> js_typeof \<sigma> v = ''object''
      \<and> (\<exists>a. v = VRef a \<and> (\<forall>(key, V) \<in> set shape. test V \<sigma> (obj_get \<sigma> a key) = Inr True)))
   \<and> test (object [(''name'', string)]) example_env (VRef 0) = Inr True
   \<and> test (object [(''name'', string)]) example_env (VRef 1) = Inr False
   \<and> test (object [(''name'', string)]) example_env VNull = Inr False"
proof (intro conjI)
  show "test (object shape) \<sigma> v = Inr True \<longleftrightarrow>
      v \<noteq> VNull \<and> js_typeof \<sigma> v = ''object''
      \<and> (\<exists>a. v = VRef a \<and> (\<forall>(key, V) \<in> set shape. test V \<sigma> (obj_get \<sigma> a key) = Inr True))"
  proof (cases "\<exists>a. v = VRef a")
    case True
    then obtain a where v: "v = VRef a" by blast
    show ?thesis
      by (auto simp: v object_test_ref js_every_True_iff js_typeof_def)
  next
    case False
    then show ?thesis by (auto simp: object_test_not_ref)
  qed
  show "test (object [(''name'', string)]) example_env (VRef 0) = Inr True"
    by (simp add: object_test_ref obj_get_own_inherited string_def js_typeof_def)
  show "test (object [(''name'', string)]) example_env (VRef 1) = Inr False"
    by (simp add: object_test_ref obj_get_own_inherited string_def js_typeof_def)
  show "test (object [(''name'', string)]) example_env VNull = Inr False"
    by (simp add: object_test_not_ref)
qed

theorem object_test_iff_witness:
  "test (object [(''name'', string)]) example_env (VRef 4) = Inr True
   \<and> test string example_env (obj_get example_env 4 ''name'') = Inr True"
  using object_test_iff [of "[(''name'', string)]" example_env "VRef 4"]
  by (simp add: obj_get_own_inherited string_def js_typeof_def)

text \<open>
  Claim C9. An Array passes the kind check of the object combinator: whenever the
  validators of the declared keys accept what the Array holds at those keys, the test
  of \<^verbatim>\<open>object(shape)\<close> on the Array is true. In particular \<^verbatim>\<open>object({})\<close> accepts \<^verbatim>\<open>[]\<close>.
\<close>

theorem array_passes_object:
  "(is_array \<sigma> (VRef a) \<and> (\<forall>(key, V) \<in> set shape. test V \<sigma> (obj_get \<sigma> a key) = Inr True)
      \<longrightarrow> test (object shape) \<sigma> (VRef a) = Inr True)
   \<and> is_array example_env (VRef 2)
   \<and> test (object []) example_env (VRef 2) = Inr True"
  by (auto simp: is_array_def object_test_ref js_every_True_iff)

theorem array_passes_object_witness:
  "is_array example_env (VRef 2)
   \<and> test number example_env (obj_get example_env 2 ''length'') = Inr True
   \<and> test (object [(''length'', number)]) example_env (VRef 2) = Inr True"
  using array_passes_object [of example_env 2 "[(''length'', number)]"]
  by (simp add: is_array_def obj_get_own_inherited number_def js_typeof_def)

text \<open>
  Claim C10, as the code has it. The test of \<^verbatim>\<open>object(shape)\<close> depends only on what
  the value reads at the declared keys: two values that are not \<^verbatim>\<open>null\<close>, have \<^verbatim>\<open>typeof\<close>
  \<^verbatim>\<open>"object"\<close> and read the same at every declared key get the same result. A read of a
  key gives the own property, else the property inherited from the prototype chain, and
  \<^verbatim>\<open>undefined\<close> only when there is neither. So of a key that an object neither has nor
  inherits: the object and the same object with that key set to \<^verbatim>\<open>undefined\<close> get the
  same result under every shape, and a field whose validator is \<^verbatim>\<open>undefinable(V)\<close> is
  accepted. Of a key that the object does not have but inherits, the field's validator
  is applied to the inherited value.
\<close>

theorem object_depends_on_declared_keys:
  "(js_typeof \<sigma> (VRef a) = ''object'' \<and> js_typeof \<sigma> (VRef b) = ''object''
      \<and> (\<forall>key \<in> fst ` set shape. obj_get \<sigma> a key = obj_get \<sigma> b key)
      \<longrightarrow> test (object shape) \<sigma> (VRef a) = test (object shape) \<sigma> (VRef b))
   \<and> obj_get \<sigma> a k =
       (case map_of (own (heap \<sigma> a)) k of
          Some v \<Rightarrow> v
        | None \<Rightarrow> (case map_of (inherited (heap \<sigma> a)) k of Some v \<Rightarrow> v | None \<Rightarrow> VUndefined))
   \<and> (js_typeof \<sigma> (VRef a) = ''object'' \<and> js_typeof \<sigma> (VRef b) = ''object''
      \<and> map_of (own (heap \<sigma> a)) k = None \<and> map_of (inherited (heap \<sigma> a)) k = None
      \<and> own (heap \<sigma> b) = own (heap \<sigma> a) @ [(k, VUndefined)]
      \<and> inherited (heap \<sigma> b) = inherited (heap \<sigma> a)
      \<longrightarrow> test (object shape) \<sigma> (VRef a) = test (object shape) \<sigma> (VRef b))
   \<and> (js_typeof \<sigma> (VRef a) = ''object''
      \<and> map_of (own (heap \<sigma> a)) k = None \<and> map_of (inherited (heap \<sigma> a)) k = None
      \<longrightarrow> test (object [(k, undefinable V)]) \<sigma> (VRef a) = Inr True)
   \<and> (js_typeof \<sigma> (VRef a) = ''object''
      \<and> map_of (own (heap \<sigma> a)) k = None \<and> map_of (inherited (heap \<sigma> a)) k = Some w
      \<longrightarrow> test (object [(k, V)]) \<sigma> (VRef a) = test V \<sigma> w)"
proof (intro conjI impI)
  assume h: "js_typeof \<sigma> (VRef a) = ''object'' \<and> js_typeof \<sigma> (VRef b) = ''object''
      \<and> (\<forall>key \<in> fst ` set shape. obj_get \<sigma> a key = obj_get \<sigma> b key)"
  then have "cls (heap \<sigma> a) \<noteq> FunctionObject" "cls (heap \<sigma> b) \<noteq> FunctionObject"
    by (auto simp: js_typeof_def split: if_splits)
  with h show "test (object shape) \<sigma> (VRef a) = test (object shape) \<sigma> (VRef b)"
    by (simp add: object_test_ref js_every_cong_keys [of shape "obj_get \<sigma> a" "obj_get \<sigma> b"])
next
  show "obj_get \<sigma> a k =
       (case map_of (own (heap \<sigma> a)) k of
          Some v \<Rightarrow> v
        | None \<Rightarrow> (case map_of (inherited (heap \<sigma> a)) k of Some v \<Rightarrow> v | None \<Rightarrow> VUndefined))"
    by (rule obj_get_own_inherited)
next
  assume h: "js_typeof \<sigma> (VRef a) = ''object'' \<and> js_typeof \<sigma> (VRef b) = ''object''
      \<and> map_of (own (heap \<sigma> a)) k = None \<and> map_of (inherited (heap \<sigma> a)) k = None
      \<and> own (heap \<sigma> b) = own (heap \<sigma> a) @ [(k, VUndefined)]
      \<and> inherited (heap \<sigma> b) = inherited (heap \<sigma> a)"
  then have c: "cls (heap \<sigma> a) \<noteq> FunctionObject" "cls (heap \<sigma> b) \<noteq> FunctionObject"
    by (auto simp: js_typeof_def split: if_splits)
  from h have "obj_get \<sigma> a key = obj_get \<sigma> b key" for key
    by (auto simp: obj_get_own_inherited map_add_def split: option.splits)
  with c show "test (object shape) \<sigma> (VRef a) = test (object shape) \<sigma> (VRef b)"
    by (simp add: object_test_ref)
next
  assume h: "js_typeof \<sigma> (VRef a) = ''object''
      \<and> map_of (own (heap \<sigma> a)) k = None \<and> map_of (inherited (heap \<sigma> a)) k = None"
  then have "cls (heap \<sigma> a) \<noteq> FunctionObject"
    by (auto simp: js_typeof_def split: if_splits)
  with h show "test (object [(k, undefinable V)]) \<sigma> (VRef a) = Inr True"
    by (simp add: object_test_ref obj_get_own_inherited undefinable_def)
next
  assume h: "js_typeof \<sigma> (VRef a) = ''object''
      \<and> map_of (own (heap \<sigma> a)) k = None \<and> map_of (inherited (heap \<sigma> a)) k = Some w"
  then have "cls (heap \<sigma> a) \<noteq> FunctionObject"
    by (auto simp: js_typeof_def split: if_splits)
  with h show "test (object [(k, V)]) \<sigma> (VRef a) = test V \<sigma> w"
    by (auto simp: object_test_ref obj_get_own_inherited split: sum.splits)
qed

theorem object_depends_on_declared_keys_witness:
  "obj_get example_env 0 ''name'' = obj_get example_env 4 ''name''
   \<and> test (object [(''name'', string)]) example_env (VRef 0)
     = test (object [(''name'', string)]) example_env (VRef 4)
   \<and> map_of (own (heap example_env 4)) ''age'' = None
   \<and> map_of (inherited (heap example_env 4)) ''age'' = None
   \<and> own (heap example_env 5) = own (heap example_env 4) @ [(''age'', VUndefined)]
   \<and> test (object [(''name'', string), (''age'', number)]) example_env (VRef 4)
     = test (object [(''name'', string), (''age'', number)]) example_env (VRef 5)
   \<and> test (object [(''age'', undefinable number)]) example_env (VRef 4) = Inr True
   \<and> map_of (own (heap example_env 4)) ''toString'' = None
   \<and> map_of (inherited (heap example_env 4)) ''toString'' = Some (VRef 108)
   \<and> test (object [(''toString'', string)]) example_env (VRef 4) = Inr False"
  using object_depends_on_declared_keys [of example_env 0 4 "[(''name'', string)]" "''age''" number]
    object_depends_on_declared_keys
      [of example_env 4 5 "[(''name'', string), (''age'', number)]" "''age''" number]
    object_depends_on_declared_keys
      [of example_env 4 4 "[]" "''toString''" string "VRef 108"]
  by (simp add: obj_get_own_inherited js_typeof_def object_prototype_props_def string_def)

text \<open>
  The claim as the specification states it (a key missing from the value behaves
  exactly like a key present with the value \<^verbatim>\<open>undefined\<close>, so an \<^verbatim>\<open>undefinable\<close> field is
  optional) fails for a key that the value inherits: \<^verbatim>\<open>{name: "a"}\<close> has no key
  \<^verbatim>\<open>toString\<close>, but \<^verbatim>\<open>value["toString"]\<close> is the function of \<^verbatim>\<open>Object.prototype\<close>, so
  \<^verbatim>\<open>object({toString: undefinable(string)})\<close> rejects it and accepts
  \<^verbatim>\<open>{name: "a", toString: undefined}\<close>.
\<close>

theorem object_inherited_key_counterexample:
  "map_of (own (heap example_env 4)) ''toString'' = None
   \<and> own (heap example_env 9) = own (heap example_env 4) @ [(''toString'', VUndefined)]
   \<and> test (object [(''toString'', undefinable string)]) example_env (VRef 4) = Inr False
   \<and> test (object [(''toString'', undefinable string)]) example_env (VRef 9) = Inr True"
  by (simp add: object_test_ref obj_get_own_inherited object_prototype_props_def undefinable_def
      string_def js_typeof_def)

subsection \<open>Bounds\<close>

lemma number_accepts_number [simp]: "test number \<sigma> (VNum n) = Inr True"
  by (simp add: number_def js_typeof_def)

text \<open>
  Claim C8. For every inner validator \<open>V\<close>, all bounds and every value, \<^verbatim>\<open>min(V, m)\<close>,
  \<^verbatim>\<open>max(V, n)\<close> and \<^verbatim>\<open>range(V, m, n)\<close> accept the value if and only if \<open>V\<close> accepts it and
  \<^verbatim>\<open>value >= m\<close>, respectively \<^verbatim>\<open>value <= n\<close>, respectively both, are true. On numbers
  these comparisons are the order of the numbers with both bounds included.
  \<^verbatim>\<open>range(number, 0, 10)\<close> accepts 5 and 10 and rejects -1 and 11.
\<close>

theorem bounds_inclusive:
  "(test (min_validator V m) \<sigma> x = Inr True
      \<longleftrightarrow> test V \<sigma> x = Inr True \<and> js_ge \<sigma> x m = Inr True)
   \<and> (test (max_validator V n) \<sigma> x = Inr True
      \<longleftrightarrow> test V \<sigma> x = Inr True \<and> js_le \<sigma> x n = Inr True)
   \<and> (test (range_validator V m n) \<sigma> x = Inr True
      \<longleftrightarrow> test V \<sigma> x = Inr True \<and> js_ge \<sigma> x m = Inr True \<and> js_le \<sigma> x n = Inr True)
   \<and> js_ge \<sigma> (VNum (NumFinite q)) (NumFinite lo) = Inr (lo \<le> q)
   \<and> js_le \<sigma> (VNum (NumFinite q)) (NumFinite hi) = Inr (q \<le> hi)
   \<and> test (range_validator number (NumFinite 0) (NumFinite 10)) \<sigma> (VNum (NumFinite 5)) = Inr True
   \<and> test (range_validator number (NumFinite 0) (NumFinite 10)) \<sigma> (VNum (NumFinite (- 1))) = Inr False
   \<and> test (range_validator number (NumFinite 0) (NumFinite 10)) \<sigma> (VNum (NumFinite 11)) = Inr False
   \<and> test (range_validator number (NumFinite 0) (NumFinite 10)) \<sigma> (VNum (NumFinite 10)) = Inr True"
  by (simp add: min_validator_def max_validator_def range_validator_def andalso_True_iff
      js_ge_number js_le_number)

theorem bounds_inclusive_witness:
  "test (min_validator number (NumFinite 0)) example_env (VNum (NumFinite 0)) = Inr True
   \<and> test (max_validator number (NumFinite 10)) example_env (VNum (NumFinite 10)) = Inr True
   \<and> test (range_validator number (NumFinite 0) (NumFinite 10)) example_env (VNum (NumFinite 10))
     = Inr True"
  using bounds_inclusive [of number "NumFinite 0" example_env "VNum (NumFinite 0)" "NumFinite 10" 0 0 0]
    bounds_inclusive [of number "NumFinite 0" example_env "VNum (NumFinite 10)" "NumFinite 10" 10 0 10]
  by simp

subsection \<open>When a test returns\<close>

lemma number_numeric_operand: "test number \<sigma> x = Inr True \<Longrightarrow> numeric_operand \<sigma> x"
  by (cases x) (auto simp: number_def js_typeof_def numeric_operand_def to_primitive_def
      to_numeric_def split: if_splits)

lemma string_numeric_length: "test string \<sigma> x = Inr True \<Longrightarrow> numeric_length \<sigma> x"
  by (cases x) (auto simp: string_def js_typeof_def numeric_length_def get_length_def
      numeric_operand_def to_primitive_def to_numeric_def split: if_splits)

text \<open>Where every Array has the built-in \<^verbatim>\<open>every\<close>, the test of \<^verbatim>\<open>array(V)\<close> is the
  loop of that method over the elements.\<close>

lemma call_every_builtin:
  "builtin_every \<sigma> \<Longrightarrow> cls (heap \<sigma> a) = ArrayObject \<Longrightarrow>
   call_every \<sigma> a callback
     = andthen (js_every callback (array_elements \<sigma> a)) (\<lambda>b. Inr (VBool b))"
  by (simp add: builtin_every_def call_every_def)

lemma array_test_builtin:
  "builtin_every \<sigma> \<Longrightarrow>
   test (array V) \<sigma> x =
     andalso (Inr (is_array \<sigma> x))
       (case x of VRef a \<Rightarrow> js_every (\<lambda>v. test V \<sigma> v) (array_elements \<sigma> a) | _ \<Rightarrow> Inr False)"
proof (cases "is_array \<sigma> x")
  case True
  then obtain a where x: "x = VRef a" and arr: "cls (heap \<sigma> a) = ArrayObject"
    by (auto simp: is_array_def split: val.splits)
  assume "builtin_every \<sigma>"
  then show ?thesis
    using True by (cases "js_every (\<lambda>v. test V \<sigma> v) (array_elements \<sigma> a)")
      (simp_all add: x array_def call_every_builtin [OF _ arr] to_boolean_def)
next
  case False
  then show ?thesis by (simp add: array_def)
qed

lemma array_every_not_function:
  "is_array \<sigma> (VRef a) \<Longrightarrow>
   \<forall>f. obj_get \<sigma> a ''every'' = VRef f \<longrightarrow> cls (heap \<sigma> f) \<noteq> FunctionObject \<Longrightarrow>
   test (array W) \<sigma> (VRef a) = Inl TypeError"
  by (auto simp: array_def call_every_def split: val.splits)




lemma well_guarded_person: "well_guarded person"
proof -
  have name: "well_guarded (rangeLength string (NumFinite 1) (NumFinite 32))"
    by (intro wg_rangeLength wg_string) (simp add: string_numeric_length)
  have age: "well_guarded (nullable (min_validator number (NumFinite 0)))"
    by (intro wg_nullable wg_min wg_number) (simp add: number_numeric_operand)
  have sex: "well_guarded (union_validator [literal (VStr ''man''), literal (VStr ''woman'')])"
    by (intro wg_union) (simp add: wg_literal)
  have city: "well_guarded (nullable (oneOf vs))" for vs
    by (intro wg_nullable wg_oneOf)
  show ?thesis
    unfolding person_def by (intro wg_object) (simp add: name age sex city)
qed

lemma well_guarded_member: "well_guarded member"
proof -
  have "well_guarded (object [(''id'', string), (''role'', memberRole)])"
    unfolding memberRole_def by (intro wg_object) (simp add: wg_string wg_oneOf)
  then show ?thesis
    unfolding member_def by (intro wg_intersection) (simp add: well_guarded_person)
qed


lemma example_heap_arrays: "cls (example_heap a) = ArrayObject \<Longrightarrow> a = 2 \<or> a = 10"
  by (simp add: example_heap_def builtin_function_def split: if_splits)

lemma builtin_every_example_env: "builtin_every example_env"
proof -
  have "obj_get example_env a ''every'' = VRef 205" if "cls (example_heap a) = ArrayObject" for a
  proof -
    from that have "a = 2 \<or> a = 10" by (rule example_heap_arrays)
    then show ?thesis
      by (auto simp: obj_get_own_inherited array_prototype_props_def)
  qed
  then show ?thesis by (simp add: builtin_every_def)
qed

lemma shadowed_array: "is_array shadowed_env (VRef 11)"
  "obj_get shadowed_env 11 ''every'' = VNum (NumFinite 5)"
  by (simp_all add: is_array_def shadowed_heap_def obj_get_own_inherited)



subsection \<open>The entry points\<close>

text \<open>
  Claim C3, as the code has it. For every validator and value, \<^verbatim>\<open>parse\<close> returns the
  value itself when the test is true. When the test is false and the validator's
  \<^verbatim>\<open>error\<close> function returns a message, \<^verbatim>\<open>parse\<close> throws an \<^verbatim>\<open>Error\<close> with exactly that
  message; when the \<^verbatim>\<open>error\<close> function itself throws, \<^verbatim>\<open>parse\<close> throws that exception,
  as it does when the test throws. Nothing is caught or retried. \<^verbatim>\<open>parseUnknown\<close> does
  what \<^verbatim>\<open>parse\<close> does.
\<close>

theorem parse_outcome:
  "(test V \<sigma> x = Inr True \<longrightarrow> parse V \<sigma> x = Inr x)
   \<and> (test V \<sigma> x = Inr False \<and> error V \<sigma> x = Inr msg \<longrightarrow> parse V \<sigma> x = Inl (Error msg))
   \<and> (test V \<sigma> x = Inr False \<and> error V \<sigma> x = Inl e \<longrightarrow> parse V \<sigma> x = Inl e)
   \<and> (test V \<sigma> x = Inl e \<longrightarrow> parse V \<sigma> x = Inl e)
   \<and> parseUnknown V \<sigma> x = parse V \<sigma> x"
  by (simp add: parse_def parseUnknown_def)

theorem parse_outcome_witness:
  "parse number example_env (VNum (NumFinite 5)) = Inr (VNum (NumFinite 5))
   \<and> parse number example_env (VStr ''123'') = Inl (Error ''Expected number, got string'')
   \<and> parseUnknown number example_env (VStr ''123'') = Inl (Error ''Expected number, got string'')
   \<and> test (max_validator number (NumFinite 0)) example_env (VSym 0) = Inr False
   \<and> error (max_validator number (NumFinite 0)) example_env (VSym 0) = Inl TypeError
   \<and> parse (max_validator number (NumFinite 0)) example_env (VSym 0) = Inl TypeError
   \<and> test (max_validator symbol (NumFinite 0)) example_env (VSym 0) = Inl TypeError
   \<and> parse (max_validator symbol (NumFinite 0)) example_env (VSym 0) = Inl TypeError"
  using parse_outcome [of number example_env "VNum (NumFinite 5)"]
    parse_outcome [of number example_env "VStr ''123''" "''Expected number, got string''"]
    parse_outcome [of "max_validator number (NumFinite 0)" example_env "VSym 0" "[]" TypeError]
    parse_outcome [of "max_validator symbol (NumFinite 0)" example_env "VSym 0" "[]" TypeError]
  by (simp add: number_def symbol_def max_validator_def js_typeof_def to_string_def
      prim_to_string_def js_le_def to_primitive_def to_numeric_def)

text \<open>
  The claim as the specification states it (a false test always ends in an \<^verbatim>\<open>Error\<close>
  carrying the message) fails: \<^verbatim>\<open>min(number, 0)\<close> rejects a symbol, but its \<^verbatim>\<open>error\<close>
  function puts the value into a template literal, which throws a TypeError on a symbol,
  so \<^verbatim>\<open>parseUnknown\<close> throws that TypeError and no \<^verbatim>\<open>Error\<close> with a message.
\<close>

theorem parse_message_counterexample:
  "test (min_validator number (NumFinite 0)) example_env (VSym 0) = Inr False
   \<and> error (min_validator number (NumFinite 0)) example_env (VSym 0) = Inl TypeError
   \<and> parseUnknown (min_validator number (NumFinite 0)) example_env (VSym 0) = Inl TypeError"
  by (simp add: parseUnknown_def parse_def min_validator_def number_def js_typeof_def
      to_string_def prim_to_string_def)

subsection \<open>The usage of the source\<close>

text \<open>
  The validators \<^verbatim>\<open>person\<close> and \<^verbatim>\<open>member\<close> of the usage (lines 68 to 109) on the objects of
  the example heap: a person with a name of one to 32 code units and an age that is
  \<^verbatim>\<open>null\<close> or at least 0 is accepted; an empty name and a negative age are rejected;
  \<^verbatim>\<open>member(null)\<close> is false, and \<^verbatim>\<open>parseUnknown(member, null)\<close> throws the \<^verbatim>\<open>Error\<close> whose
  message \<^verbatim>\<open>member.error(null)\<close> builds.
\<close>

lemma person_accepts: "test person example_env (VRef 6) = Inr True"
  by (simp add: person_def object_test_ref obj_get_own_inherited rangeLength_def string_def js_typeof_def
      get_length_def js_ge_number js_le_number nullable_def union_validator_def literal_def)

lemma person_rejects_empty_name: "test person example_env (VRef 7) = Inr False"
  by (simp add: person_def object_test_ref obj_get_own_inherited rangeLength_def string_def js_typeof_def
      get_length_def js_ge_number js_le_number)

lemma person_rejects_negative_age: "test person example_env (VRef 8) = Inr False"
  by (simp add: person_def object_test_ref obj_get_own_inherited rangeLength_def string_def js_typeof_def
      get_length_def js_ge_number js_le_number nullable_def min_validator_def number_def)

text \<open>\<^verbatim>\<open>array\<close> on the Arrays of the example heap: \<^verbatim>\<open>[5, -1]\<close> is an array of numbers but
  not of numbers that are at least 0, \<^verbatim>\<open>[]\<close> is an array of strings, an object is not an
  array, and after \<^verbatim>\<open>a = []; a.every = 5\<close> the test throws on \<open>a\<close>.\<close>

lemma array_elements_example:
  "array_elements example_env 10 = [VNum (NumFinite 5), VNum (NumFinite (- 1))]"
  "array_elements example_env 2 = []"
  by (simp_all add: array_elements_def array_length_def obj_get_own_inherited props_def
      List.map_filter_def upt_rec [of 0] upt_rec [of 1] upt_rec [of "Suc 0"]
      nat_to_decimal.simps digit_char_def)

lemma array_examples:
  "test (array number) example_env (VRef 10) = Inr True"
  "test (array (min_validator number (NumFinite 0))) example_env (VRef 10) = Inr False"
  "test (array string) example_env (VRef 2) = Inr True"
  "test (array string) example_env (VRef 0) = Inr False"
  "test (array string) shadowed_env (VRef 11) = Inl TypeError"
  by (simp_all add: array_test_builtin [OF builtin_every_example_env] is_array_def
      array_elements_example min_validator_def js_ge_number
      array_every_not_function [OF shadowed_array(1)] shadowed_array)

lemma member_rejects_null: "test member example_env VNull = Inr False"
  by (simp add: member_def person_def object_test_not_ref intersection_def)

lemma parseUnknown_member_null:
  "parseUnknown member example_env VNull =
     Inl (Error (''Expected intersection of Expected object, got object, ''
                 @ ''Expected object, got object, got undefined''))"
  by (simp add: parseUnknown_def parse_def member_rejects_null member_def intersection_def
      person_def object_def js_typeof_def to_string_def prim_to_string_def join_item_def
      opt_toString_def)

end
